theory Spec2Isabelle
  imports Main "HOL-Library.Word"
begin

unbundle bit_operations_syntax

section \<open>The peer of the Chord ring\<close>

text \<open>
  A shallow embedding of the peer program (the source file with \<open>package main\<close>,
  \<open>moveFilesToNewNode\<close> and \<open>findSuccessor\<close>; line numbers refer to it). Go's \<open>int\<close> is taken to be 64 bits wide and is
  modelled by \<open>int\<close>, with the wrap-around written out at the two additions of
  \<open>between\<close>; \<open>uint32\<close> is \<open>32 word\<close>. Strings are byte lists. The globals of the
  program (\<open>self\<close>, \<open>successor\<close>, \<open>predecessor\<close>, \<open>storedFiles\<close>, \<open>hasher\<close>) are
  the fields of the record \<open>peer\<close>, together with the local file system and a trace of
  what the peer has written to its sockets. What the outside world does (whether a dial
  succeeds, what a remote peer sends back, whether a file can be created, in which order the
  runtime enumerates a map) is a parameter \<open>env\<close> of every function that depends on it.
  \<open>log.Println\<close> and \<open>fmt.Println\<close> are not part of the model; \<open>log.Fatalln\<close>
  ends the process and is the result \<open>Inl Fatal\<close>; an index out of range is \<open>Inl Panic\<close>.
  Goroutines are not modelled: each function runs alone on the state.
\<close>

subsection \<open>Nodes and the identifier ring\<close>

record node =
  Address :: string
  ID :: int

definition newNode :: node where
  "newNode = \<lparr>Address = [], ID = - 1\<rparr>"

definition ringCapacity :: "32 word" where
  "ringCapacity = 127"

text \<open>Addition on Go's 64-bit \<open>int\<close>: the mathematical sum, wrapped into the signed range.\<close>

definition wrap64 :: "int \<Rightarrow> int" where
  "wrap64 x = (x + 2 ^ 63) mod 2 ^ 64 - 2 ^ 63"

text \<open>
  \<open>between\<close>, lines 62--74. The two assignments \<open>high += perimeter\<close> and
  \<open>n += perimeter\<close> become the primed values.
\<close>

definition between :: "int \<Rightarrow> int \<Rightarrow> int \<Rightarrow> bool" where
  "between low n high =
     (if low = high then True
      else
        let perimeter = uint ringCapacity;
            wraps = high < low;
            high' = (if wraps then wrap64 (high + perimeter) else high);
            n' = (if wraps \<and> n < low then wrap64 (n + perimeter) else n)
        in n' > low \<and> n' < high')"

subsection \<open>The shared FNV-1a hasher\<close>

text \<open>
  \<open>fnv.New32a()\<close> starts at the offset basis; \<open>Write\<close> folds each byte in with
  xor-then-multiply; \<open>Sum32\<close> reads the accumulator; \<open>Reset\<close> puts the offset basis back.
\<close>

definition offset32 :: "32 word" where
  "offset32 = 2166136261"

definition prime32 :: "32 word" where
  "prime32 = 16777619"

definition Write :: "32 word \<Rightarrow> string \<Rightarrow> 32 word" where
  "Write h bs = foldl (\<lambda>acc c. (acc XOR of_char c) * prime32) h bs"

subsection \<open>Strings: the library functions the peer calls\<close>

definition nl :: char where
  "nl = CHR 0x0A"

text \<open>
  \<open>strings.TrimSpace\<close> on ASCII input: tab, line feed, vertical tab, form feed, carriage
  return and space are white space. (The multi-byte Unicode spaces are not modelled; the
  protocol is ASCII.)
\<close>

definition isSpace :: "char \<Rightarrow> bool" where
  "isSpace c = (c = CHR 0x09 \<or> c = CHR 0x0A \<or> c = CHR 0x0B \<or> c = CHR 0x0C \<or> c = CHR 0x0D \<or> c = CHR 0x20)"

definition TrimSpace :: "string \<Rightarrow> string" where
  "TrimSpace s = rev (dropWhile isSpace (rev (dropWhile isSpace s)))"

text \<open>\<open>strings.Split(s, " ")\<close>: the pieces between single spaces; never the empty list.\<close>

fun Split :: "string \<Rightarrow> string list" where
  "Split [] = [[]]"
| "Split (c # cs) =
     (if c = CHR 0x20 then [] # Split cs
      else (case Split cs of [] \<Rightarrow> [[c]] | t # ts \<Rightarrow> (c # t) # ts))"

text \<open>\<open>fmt.Sprintf("%d", i)\<close>.\<close>

definition digitChar :: "nat \<Rightarrow> char" where
  "digitChar d = ''0123456789'' ! d"

function decimal :: "nat \<Rightarrow> string" where
  "decimal n =
     (if n < 10 then [digitChar n]
      else decimal (n div 10) @ [digitChar (n mod 10)])"
  by pat_completeness auto
termination
  by (relation "measure (\<lambda>n. n)") auto

declare decimal.simps [simp del]

definition showInt :: "int \<Rightarrow> string" where
  "showInt i = (if i < 0 then CHR ''-'' # decimal (nat (- i)) else decimal (nat i))"

text \<open>
  \<open>strconv.Atoi\<close>: an optional sign and then one or more decimal digits. The result is
  the value and whether an error is returned; on a syntax error the value is 0, out of the
  64-bit range it is the nearest bound.
\<close>

definition isDigit :: "char \<Rightarrow> bool" where
  "isDigit c = (48 \<le> (of_char c :: nat) \<and> (of_char c :: nat) \<le> 57)"

definition digitsValue :: "string \<Rightarrow> nat" where
  "digitsValue ds = foldl (\<lambda>acc c. 10 * acc + (of_char c - 48)) 0 ds"

definition Atoi :: "string \<Rightarrow> int \<times> bool" where
  "Atoi s =
     (let neg = (s \<noteq> [] \<and> hd s = CHR ''-'');
          ds = (if s \<noteq> [] \<and> (hd s = CHR ''+'' \<or> hd s = CHR ''-'') then tl s else s)
      in if ds = [] \<or> \<not> list_all isDigit ds then (0, True)
         else
           let v = int (digitsValue ds)
           in if neg then (if v \<le> 2 ^ 63 then (- v, False) else (- (2 ^ 63), True))
              else (if v < 2 ^ 63 then (v, False) else (2 ^ 63 - 1, True)))"

text \<open>
  \<open>bufio.Reader.ReadString('\n')\<close> on the bytes a connection delivers before it ends:
  the line up to and including the first line feed, or everything and an error.
\<close>

definition ReadString :: "string \<Rightarrow> string \<times> bool" where
  "ReadString stream =
     (if nl \<in> set stream then (takeWhile (\<lambda>c. c \<noteq> nl) stream @ [nl], False)
      else (stream, True))"

text \<open>
  \<open>io.CopyN(dst, src, n)\<close>: the bytes written to \<open>dst\<close> and whether an error is
  returned. A source that ends before \<open>n\<close> bytes gives \<open>io.EOF\<close>; a count that is not
  positive copies nothing and is no error.
\<close>

definition CopyN :: "string \<Rightarrow> int \<Rightarrow> string \<times> bool" where
  "CopyN src n =
     (if n \<le> 0 then ([], False)
      else if int (length src) < n then (src, True)
      else (take (nat n) src, False))"

text \<open>\<open>extractServerResponse\<close>, lines 85--101.\<close>

definition extractServerResponse :: "string \<Rightarrow> string \<times> string" where
  "extractServerResponse resp0 =
     (let resp = TrimSpace resp0
      in if take 2 resp = ''OK'' then (''OK'', if length resp > 2 then drop 3 resp else [])
         else if take 3 resp = ''ERR'' then (''ERR'', if length resp > 3 then drop 4 resp else [])
         else ([], []))"

subsection \<open>The state of a peer and its environment\<close>

datatype crash = Fatal | Panic

text \<open>
  What the peer writes: \<open>Reply\<close> and \<open>CloseConn\<close> on the connection a handler serves;
  \<open>Dial\<close>, \<open>Send\<close> and \<open>Hangup\<close> on a connection the peer opens itself, each with
  the address dialled.
\<close>

datatype event =
    Reply string
  | CloseConn
  | Dial string
  | Send string string
  | Hangup string

datatype response = Refused | Accepts string

text \<open>
  The environment: \<open>remote k a\<close> is what happens to the \<open>k\<close>-th connection the peer
  opens, to address \<open>a\<close> (refused, or accepted with the bytes the remote side sends
  until it closes); \<open>createFails p\<close> says whether \<open>os.Create\<close> fails for the path;
  \<open>rangeOrder m\<close> is the order in which \<open>range\<close> enumerates the keys of the map.
\<close>

record env =
  remote :: "nat \<Rightarrow> string \<Rightarrow> response"
  createFails :: "string \<times> string \<Rightarrow> bool"
  rangeOrder :: "(string \<rightharpoonup> int) \<Rightarrow> string list"

text \<open>
  A path is the pair of the folder and the file name that \<open>filepath.Join\<close> joins (its
  cleaning of the joined path is not modelled). \<open>disk\<close> maps a path to the file's bytes.
\<close>

record peer =
  self :: node
  successor :: node
  predecessor :: node
  storedFiles :: "string \<rightharpoonup> int"
  hasher :: "32 word"
  disk :: "string \<times> string \<rightharpoonup> string"
  dialed :: nat
  wire :: "event list"

text \<open>\<open>filePath\<close>, lines 55--59 (the \<open>os.Mkdir\<close> of the folder is not modelled).\<close>

definition filePath :: "peer \<Rightarrow> string \<Rightarrow> string \<times> string" where
  "filePath st fileName = (showInt (ID (self st)), fileName)"

text \<open>
  The pair is the path that \<open>filepath.Join\<close> gives exactly for a plain file name: one
  that is not empty, is not \<open>.\<close> or \<open>..\<close> and has no separator. For such names
  \<open>Join\<close> has nothing to clean, and different names are different files. For other
  names \<open>Join\<close> cleans the joined path, which the pair does not model.
\<close>

definition plainName :: "string \<Rightarrow> bool" where
  "plainName fileName =
     (fileName \<noteq> [] \<and> fileName \<noteq> ''.'' \<and> fileName \<noteq> ''..'' \<and> CHR ''/'' \<notin> set fileName)"

text \<open>\<open>hsh\<close>, lines 77--82: write, read the digest, reset; the digest modulo the capacity.\<close>

definition hsh :: "string \<Rightarrow> peer \<Rightarrow> int \<times> peer" where
  "hsh inp st =
     (let digest = Write (hasher st) inp
      in (uint (digest mod ringCapacity), st\<lparr>hasher := offset32\<rparr>))"

subsection \<open>Connections the peer opens\<close>

text \<open>
  \<open>connectToPeer\<close>, lines 104--114: trims the address and dials; a failed dial is fatal.
  The result is the byte stream the remote side will deliver.
\<close>

definition connectToPeer :: "env \<Rightarrow> string \<Rightarrow> peer \<Rightarrow> crash + (string \<times> peer)" where
  "connectToPeer ev address0 st =
     (let address = TrimSpace address0
      in case remote ev (dialed st) address of
           Refused \<Rightarrow> Inl Fatal
         | Accepts stream \<Rightarrow>
             Inr (stream, st\<lparr>dialed := Suc (dialed st), wire := wire st @ [Dial address]\<rparr>))"

text \<open>
  \<open>storeFile\<close>, lines 337--362. A missing local file is fatal; a response other than
  \<open>OK\<close> ends the exchange before any byte of the file is sent.
\<close>

definition storeFile :: "env \<Rightarrow> string \<Rightarrow> string \<Rightarrow> peer \<Rightarrow> crash + peer" where
  "storeFile ev fileName peerAddr st =
     (case connectToPeer ev peerAddr st of
        Inl e \<Rightarrow> Inl e
      | Inr (stream, st1) \<Rightarrow>
          (case disk st1 (filePath st1 fileName) of
             None \<Rightarrow> Inl Fatal
           | Some srcFile \<Rightarrow>
               let dst = TrimSpace peerAddr;
                   fileSize = int (length srcFile);
                   storeRequest = ''STORE '' @ fileName @ '' '' @ showInt fileSize @ [nl];
                   st2 = st1\<lparr>wire := wire st1 @ [Send dst storeRequest]\<rparr>;
                   serverResponse = fst (ReadString stream);
                   respType = fst (extractServerResponse serverResponse)
               in if respType \<noteq> ''OK'' then Inr (st2\<lparr>wire := wire st2 @ [Hangup dst]\<rparr>)
                  else Inr (st2\<lparr>wire := wire st2 @ [Send dst srcFile, Hangup dst]\<rparr>)))"

text \<open>\<open>sendUpdateRequest\<close>, lines 367--374.\<close>

definition sendUpdateRequest :: "env \<Rightarrow> string \<Rightarrow> string \<Rightarrow> string \<Rightarrow> peer \<Rightarrow> crash + peer" where
  "sendUpdateRequest ev newSuccAddr newPredAddr peerAddr st =
     (case connectToPeer ev peerAddr st of
        Inl e \<Rightarrow> Inl e
      | Inr (stream, st1) \<Rightarrow>
          let dst = TrimSpace peerAddr;
              succRequest = ''UPDATE '' @ newSuccAddr @ '' '' @ newPredAddr @ [nl]
          in Inr (st1\<lparr>wire := wire st1 @ [Send dst succRequest, Hangup dst]\<rparr>))"

text \<open>\<open>sendSuccessorRequest\<close>, lines 379--394: the answer is the line as read.\<close>

definition sendSuccessorRequest :: "env \<Rightarrow> int \<Rightarrow> string \<Rightarrow> peer \<Rightarrow> crash + (string \<times> peer)" where
  "sendSuccessorRequest ev ident peerAddr st =
     (case connectToPeer ev peerAddr st of
        Inl e \<Rightarrow> Inl e
      | Inr (stream, st1) \<Rightarrow>
          let dst = TrimSpace peerAddr;
              succRequest = ''SUCC '' @ showInt ident @ [nl];
              st2 = st1\<lparr>wire := wire st1 @ [Send dst succRequest]\<rparr>;
              (answer, err) = ReadString stream
          in if err then Inl Fatal
             else Inr (answer, st2\<lparr>wire := wire st2 @ [Hangup dst]\<rparr>))"

text \<open>\<open>sendJoinRequest\<close>, lines 399--414.\<close>

definition sendJoinRequest ::
  "env \<Rightarrow> string \<Rightarrow> string \<Rightarrow> peer \<Rightarrow> crash + ((string \<times> string) \<times> peer)" where
  "sendJoinRequest ev newNodeAddress address st =
     (case connectToPeer ev address st of
        Inl e \<Rightarrow> Inl e
      | Inr (stream, st1) \<Rightarrow>
          let dst = TrimSpace address;
              st2 = st1\<lparr>wire := wire st1 @ [Send dst (''JOIN '' @ newNodeAddress @ [nl])]\<rparr>;
              (answer, err) = ReadString stream
          in if err then Inl Fatal
             else
               let tokens = Split (TrimSpace answer)
               in if length tokens < 2 then Inl Panic
                  else Inr ((tokens ! 0, tokens ! 1), st2\<lparr>wire := wire st2 @ [Hangup dst]\<rparr>))"

subsection \<open>Routing\<close>

text \<open>\<open>findSuccessor\<close>, lines 417--432.\<close>

definition findSuccessor :: "env \<Rightarrow> int \<Rightarrow> peer \<Rightarrow> crash + (string \<times> peer)" where
  "findSuccessor ev ident st =
     (if ID (predecessor st) = - 1 \<and> ID (successor st) = - 1 then Inr (Address (self st), st)
      else if between (ID (predecessor st)) ident (ID (self st)) \<or> ident = ID (self st)
        then Inr (Address (self st), st)
      else if between (ID (self st)) ident (ID (successor st)) \<or> ident = ID (successor st)
        then Inr (Address (successor st), st)
      else sendSuccessorRequest ev ident (Address (successor st)) st)"

text \<open>\<open>handleSuccessorRequest\<close>, lines 302--314.\<close>

definition handleSuccessorRequest :: "env \<Rightarrow> string \<Rightarrow> peer \<Rightarrow> crash + peer" where
  "handleSuccessorRequest ev request st =
     (let tokens = Split request
      in if length tokens < 2 then Inl Panic
         else
           let (ident, err) = Atoi (tokens ! 1)
           in if err then Inl Fatal
              else
                (case findSuccessor ev ident st of
                   Inl e \<Rightarrow> Inl e
                 | Inr (answer, st1) \<Rightarrow> Inr (st1\<lparr>wire := wire st1 @ [Reply (answer @ [nl])]\<rparr>)))"

subsection \<open>Storing\<close>

text \<open>
  \<open>handleStoreRequest\<close>, lines 192--216. \<open>reader\<close> is what the connection delivers after
  the request line, up to its end. \<open>os.Create\<close> makes the file empty; \<open>io.CopyN\<close> then
  writes what it could read. (A connection that stalls without ending blocks the handler
  for good; that is outside this model, as are write errors of the local disk.)
\<close>

definition handleStoreRequest :: "env \<Rightarrow> string \<Rightarrow> string \<Rightarrow> peer \<Rightarrow> crash + peer" where
  "handleStoreRequest ev reader request st =
     (let tokens = Split request
      in if length tokens < 3 then Inl Panic
         else
           let fileName = tokens ! 1;
               fileSize = fst (Atoi (tokens ! 2));
               dstFile = filePath st fileName
           in if createFails ev dstFile
              then Inr (st\<lparr>wire := wire st @ [Reply (''ERR Could not store file.'' @ [nl])]\<rparr>)
              else
                let st1 = st\<lparr>disk := (disk st)(dstFile \<mapsto> []),
                             wire := wire st @ [Reply (''OK'' @ [nl])]\<rparr>;
                    (written, err) = CopyN reader fileSize;
                    st2 = st1\<lparr>disk := (disk st1)(dstFile \<mapsto> written)\<rparr>
                in if err
                   then Inr (st2\<lparr>wire := wire st2 @ [Reply (''ERR Could not copy file.'' @ [nl])]\<rparr>)
                   else
                     let (fileKey, st3) = hsh fileName st2
                     in Inr (st3\<lparr>storedFiles := (storedFiles st3)(fileName \<mapsto> fileKey),
                                wire := wire st3 @ [Reply (''OK'' @ [nl])]\<rparr>))"

subsection \<open>Membership\<close>

text \<open>\<open>handleUpdateRequest\<close>, lines 221--248: the successor token first, then the predecessor token.\<close>

definition handleUpdateRequest :: "string \<Rightarrow> peer \<Rightarrow> crash + peer" where
  "handleUpdateRequest request st =
     (let tokens = Split request
      in if length tokens < 3 then Inl Panic
         else
           let newSuccAddr = tokens ! 1;
               newPredAddr = tokens ! 2;
               st1 =
                 (if newSuccAddr \<noteq> ''KEEP'' then
                    (if newSuccAddr = Address (self st)
                     then st\<lparr>successor := newNode, predecessor := newNode\<rparr>
                     else
                       let (k, sa) = hsh newSuccAddr st
                       in sa\<lparr>successor := \<lparr>Address = newSuccAddr, ID = k\<rparr>\<rparr>)
                  else st);
               st2 =
                 (if newPredAddr \<noteq> ''KEEP'' then
                    (if newPredAddr = Address (self st1)
                     then st1\<lparr>successor := newNode, predecessor := newNode\<rparr>
                     else
                       let (k, sb) = hsh newPredAddr st1
                       in sb\<lparr>predecessor := \<lparr>Address = newPredAddr, ID = k\<rparr>\<rparr>)
                  else st1)
           in Inr st2)"

text \<open>
  \<open>moveFilesToNewNode\<close>, lines 318--334. The first loop collects the names to transfer in
  the order the runtime enumerates \<open>storedFiles\<close>; the second loop is \<open>transferAll\<close>.
\<close>

fun transferAll :: "env \<Rightarrow> string \<Rightarrow> string list \<Rightarrow> peer \<Rightarrow> crash + peer" where
  "transferAll ev newNodeAddr [] st = Inr st"
| "transferAll ev newNodeAddr (fileName # rest) st =
     (case storeFile ev fileName newNodeAddr st of
        Inl e \<Rightarrow> Inl e
      | Inr st1 \<Rightarrow>
          transferAll ev newNodeAddr rest
            (st1\<lparr>disk := (disk st1)(filePath st1 fileName := None),
                 storedFiles := (storedFiles st1)(fileName := None)\<rparr>))"

definition moveFilesToNewNode :: "env \<Rightarrow> string \<Rightarrow> int \<Rightarrow> peer \<Rightarrow> crash + peer" where
  "moveFilesToNewNode ev newNodeAddr newNodeID st =
     (let toTransfer =
            filter
              (\<lambda>fileName.
                 case storedFiles st fileName of
                   None \<Rightarrow> False
                 | Some fileKey \<Rightarrow> \<not> between newNodeID fileKey (ID (self st)))
              (rangeOrder ev (storedFiles st))
      in transferAll ev newNodeAddr toTransfer st)"

text \<open>\<open>handleJoinRequest\<close>, lines 253--298.\<close>

definition handleJoinRequest :: "env \<Rightarrow> string \<Rightarrow> peer \<Rightarrow> crash + peer" where
  "handleJoinRequest ev request st =
     (let tokens = Split request
      in if length tokens < 2 then Inl Panic
         else
           let newNodeAddr = tokens ! 1;
               (newNodeID, st1) = hsh newNodeAddr st;
               newcomer = \<lparr>Address = newNodeAddr, ID = newNodeID\<rparr>
           in if ID (self st1) = newNodeID then Inr (st1\<lparr>wire := wire st1 @ [CloseConn]\<rparr>)
              else if ID (successor st1) = - 1 \<and> ID (predecessor st1) = - 1 then
                (case moveFilesToNewNode ev newNodeAddr newNodeID st1 of
                   Inl e \<Rightarrow> Inl e
                 | Inr st2 \<Rightarrow>
                     Inr (st2\<lparr>wire := wire st2 @
                                 [Reply (Address (self st2) @ '' '' @ Address (self st2) @ [nl])],
                              successor := newcomer,
                              predecessor := newcomer\<rparr>))
              else
                (case findSuccessor ev newNodeID st1 of
                   Inl e \<Rightarrow> Inl e
                 | Inr (newNodeSuccessorAddr, st2) \<Rightarrow>
                     if newNodeSuccessorAddr = Address (self st2) then
                       (let st3 = st2\<lparr>wire := wire st2 @
                                    [Reply (Address (self st2) @ '' '' @ Address (predecessor st2) @ [nl])]\<rparr>
                        in case sendUpdateRequest ev newNodeAddr ''KEEP'' (Address (predecessor st3)) st3 of
                             Inl e \<Rightarrow> Inl e
                           | Inr st4 \<Rightarrow>
                               (case moveFilesToNewNode ev newNodeAddr newNodeID st4 of
                                  Inl e \<Rightarrow> Inl e
                                | Inr st5 \<Rightarrow> Inr (st5\<lparr>predecessor := newcomer\<rparr>)))
                     else
                       (case sendJoinRequest ev newNodeAddr newNodeSuccessorAddr st2 of
                          Inl e \<Rightarrow> Inl e
                        | Inr ((newNodeSucc, newNodePred), st3) \<Rightarrow>
                            Inr (st3\<lparr>wire := wire st3 @
                                       [Reply (newNodeSucc @ '' '' @ newNodePred @ [nl])]\<rparr>))))"

subsection \<open>What one completed transfer puts on the wire\<close>


text \<open>
  The exchange of \<open>storeFile\<close> for one file on the \<open>k\<close>-th connection, whatever the
  other side answers: the dial and the \<open>STORE\<close> line always, the bytes of the file only
  when the first line of the answer is \<open>OK\<close>, then the hang-up. (Nothing where the dial
  is refused or the file is missing: there \<open>storeFile\<close> ends the process.)
  \<open>exchanges\<close> is one exchange after the other, on consecutive connections.
\<close>

definition exchange :: "env \<Rightarrow> peer \<Rightarrow> string \<Rightarrow> nat \<Rightarrow> string \<Rightarrow> event list" where
  "exchange ev st newNodeAddr k fileName =
     (case remote ev k (TrimSpace newNodeAddr) of
        Refused \<Rightarrow> []
      | Accepts stream \<Rightarrow>
          (case disk st (filePath st fileName) of
             None \<Rightarrow> []
           | Some srcFile \<Rightarrow>
               [Dial (TrimSpace newNodeAddr),
                Send (TrimSpace newNodeAddr)
                  (''STORE '' @ fileName @ '' '' @ showInt (int (length srcFile)) @ [nl])] @
               (if fst (extractServerResponse (fst (ReadString stream))) = ''OK''
                then [Send (TrimSpace newNodeAddr) srcFile] else []) @
               [Hangup (TrimSpace newNodeAddr)]))"

fun exchanges :: "env \<Rightarrow> peer \<Rightarrow> string \<Rightarrow> nat \<Rightarrow> string list \<Rightarrow> event list" where
  "exchanges ev st newNodeAddr k [] = []"
| "exchanges ev st newNodeAddr k (fileName # rest) =
     exchange ev st newNodeAddr k fileName @ exchanges ev st newNodeAddr (Suc k) rest"

subsection \<open>Example peers\<close>

text \<open>
  A peer at \<open>127.0.0.1:8006\<close> (identifier 60) in a ring with predecessor
  \<open>127.0.0.1:8001\<close> (23) and successor \<open>127.0.0.1:8003\<close> (83), holding the files
  \<open>g\<close> (key 33) and \<open>hi\<close> (key 59); and the same peer alone.
\<close>

definition inRing :: peer where
  "inRing =
     \<lparr>self = \<lparr>Address = ''127.0.0.1:8006'', ID = 60\<rparr>,
      successor = \<lparr>Address = ''127.0.0.1:8003'', ID = 83\<rparr>,
      predecessor = \<lparr>Address = ''127.0.0.1:8001'', ID = 23\<rparr>,
      storedFiles = [''g'' \<mapsto> 33, ''hi'' \<mapsto> 59],
      hasher = offset32,
      disk = [(''60'', ''g'') \<mapsto> ''gamma'', (''60'', ''hi'') \<mapsto> ''hello''],
      dialed = 0,
      wire = []\<rparr>"

definition alone :: peer where
  "alone =
     \<lparr>self = \<lparr>Address = ''127.0.0.1:8006'', ID = 60\<rparr>,
      successor = newNode,
      predecessor = newNode,
      storedFiles = [''hi'' \<mapsto> 59],
      hasher = offset32,
      disk = [(''60'', ''hi'') \<mapsto> ''hello''],
      dialed = 0,
      wire = []\<rparr>"

text \<open>
  Two environments: in \<open>obliging\<close> every connection is accepted and answered \<open>OK\<close>; in
  \<open>relaying\<close> every connection is answered with the address \<open>127.0.0.1:8001\<close>.
\<close>

definition obliging :: env where
  "obliging =
     \<lparr>remote = (\<lambda>k a. Accepts (''OK'' @ [nl])),
      createFails = (\<lambda>p. False),
      rangeOrder = (\<lambda>m. [''g'', ''hi''])\<rparr>"

definition relaying :: env where
  "relaying =
     \<lparr>remote = (\<lambda>k a. Accepts (''127.0.0.1:8001'' @ [nl])),
      createFails = (\<lambda>p. False),
      rangeOrder = (\<lambda>m. [''g'', ''hi''])\<rparr>"

text \<open>
  In \<open>declining\<close> every connection is accepted and answered as the \<open>STORE\<close> handler
  answers when it cannot create the file.
\<close>

definition declining :: env where
  "declining =
     \<lparr>remote = (\<lambda>k a. Accepts (''ERR Could not store file.'' @ [nl])),
      createFails = (\<lambda>p. False),
      rangeOrder = (\<lambda>m. [''g'', ''hi''])\<rparr>"

section \<open>Properties\<close>

subsection \<open>The ring predicate\<close>

lemma wrap64_id: "- (2 ^ 63) \<le> x \<Longrightarrow> x < 2 ^ 63 \<Longrightarrow> wrap64 x = x"
  by (simp add: wrap64_def)

text \<open>On identifiers of the ring no addition overflows, and \<open>between\<close> is the plain test.\<close>

lemma between_plain:
  assumes "0 \<le> low" "low < 127" "0 \<le> n" "n < 127" "0 \<le> high" "high < 127"
  shows "between low n high \<longleftrightarrow>
     low = high \<or>
     (if high < low then (if n < low then n < high else low < n) else low < n \<and> n < high)"
proof -
  have w1: "wrap64 (high + 127) = high + 127"
    using assms by (intro wrap64_id) simp_all
  have w2: "wrap64 (n + 127) = n + 127"
    using assms by (intro wrap64_id) simp_all
  show ?thesis
    using assms by (auto simp add: between_def ringCapacity_def Let_def w1 w2)
qed

lemma arc_mod:
  fixes a b :: int
  assumes "0 \<le> a" "a < 127" "0 \<le> b" "b < 127"
  shows "(a - b) mod 127 = (if b \<le> a then a - b else a - b + 127)"
proof (cases "b \<le> a")
  case True
  with assms show ?thesis by (simp add: mod_pos_pos_trivial)
next
  case False
  with assms have "(a - b + 127) mod 127 = a - b + 127"
    by (intro mod_pos_pos_trivial) simp_all
  moreover have "(a - b + 127) mod 127 = (a - b) mod 127"
    by (rule mod_add_self2)
  ultimately show ?thesis using False by simp
qed

text \<open>
  The same test by clockwise distance from \<open>low\<close>: \<open>n\<close> lies strictly inside the arc
  when its distance is positive and smaller than the distance of \<open>high\<close>.
\<close>

lemma between_distance:
  assumes "0 \<le> low" "low < 127" "0 \<le> n" "n < 127" "0 \<le> high" "high < 127"
  shows "between low n high \<longleftrightarrow>
     low = high \<or> (0 < (n - low) mod 127 \<and> (n - low) mod 127 < (high - low) mod 127)"
proof -
  have p: "between low n high \<longleftrightarrow>
     low = high \<or>
     (if high < low then (if n < low then n < high else low < n) else low < n \<and> n < high)"
    using assms by (rule between_plain)
  show ?thesis
    unfolding p arc_mod [OF assms(3,4,1,2)] arc_mod [OF assms(5,6,1,2)]
    using assms by auto
qed

text \<open>
  C3 (as amended). \<open>between(low, low, high)\<close> is true exactly when \<open>low = high\<close>: the
  lower bound itself is outside the open arc. What holds for all arguments is
  \<open>between(low, n, low)\<close>.
\<close>

theorem between_low_low:
  "between low low high = (low = high) \<and> between low n low"
  by (simp add: between_def Let_def)

text \<open>C3 as stated fails: \<open>between(0, 0, 1)\<close> is false.\<close>

theorem between_low_low_counterexample: "\<not> between 0 0 1"
  by (simp add: between_def Let_def)

text \<open>
  C8. Rotation invariance: for \<open>low\<close>, \<open>n\<close>, \<open>high\<close> and \<open>d\<close> in \<open>[0, 127)\<close>,
  \<open>between\<close> gives the same answer after all three arguments are moved \<open>d\<close> steps
  clockwise.
\<close>

theorem between_rotation:
  fixes low n high d :: int
  assumes "0 \<le> low" "low < 127" "0 \<le> n" "n < 127" "0 \<le> high" "high < 127"
    and "0 \<le> d" "d < 127"
  shows "between low n high =
     between ((low + d) mod 127) ((n + d) mod 127) ((high + d) mod 127)"
proof -
  have e1: "((n + d) mod 127 - (low + d) mod 127) mod 127 = (n - low) mod 127"
    by (simp add: mod_diff_eq)
  have e2: "((high + d) mod 127 - (low + d) mod 127) mod 127 = (high - low) mod 127"
    by (simp add: mod_diff_eq)
  have e3: "(low + d) mod 127 = (high + d) mod 127 \<longleftrightarrow> low = high"
  proof
    assume "(low + d) mod 127 = (high + d) mod 127"
    then have "((low + d) mod 127 - d) mod 127 = ((high + d) mod 127 - d) mod 127"
      by simp
    then have "low mod 127 = high mod 127"
      by (simp add: mod_diff_left_eq)
    with assms show "low = high" by (simp add: mod_pos_pos_trivial)
  qed simp
  have r: "between ((low + d) mod 127) ((n + d) mod 127) ((high + d) mod 127) \<longleftrightarrow>
     (low + d) mod 127 = (high + d) mod 127 \<or>
     (0 < ((n + d) mod 127 - (low + d) mod 127) mod 127 \<and>
      ((n + d) mod 127 - (low + d) mod 127) mod 127
        < ((high + d) mod 127 - (low + d) mod 127) mod 127)"
    by (rule between_distance) simp_all
  show ?thesis
    unfolding r e1 e2 e3 using between_distance [OF assms(1-6)] .
qed

theorem between_rotation_witness:
  "between 120 125 5 = between ((120 + 10) mod 127) ((125 + 10) mod 127) ((5 + 10) mod 127)
   \<and> between 120 125 5 \<and> between 3 8 15"
  using between_rotation [of 120 125 5 10]
  by (simp add: between_def ringCapacity_def wrap64_def Let_def)

subsection \<open>The hash\<close>

lemma hsh_value: "fst (hsh s st) = uint (Write (hasher st) s) mod 127"
  by (simp add: hsh_def ringCapacity_def Let_def uint_mod)

lemma hsh_state: "snd (hsh s st) = st\<lparr>hasher := offset32\<rparr>"
  by (simp add: hsh_def Let_def)

text \<open>
  C9. Whatever the string and whatever the hasher holds, \<open>hsh\<close> returns an identifier in
  \<open>[0, 127)\<close>; it is never \<open>-1\<close>, the identifier of the unset node \<open>newNode\<close>.
\<close>

theorem hsh_in_ring:
  "0 \<le> fst (hsh s st) \<and> fst (hsh s st) < 127 \<and> fst (hsh s st) \<noteq> - 1 \<and>
   ID newNode = - 1 \<and> fst (hsh s st) \<noteq> ID newNode"
proof -
  have lo: "0 \<le> fst (hsh s st)" and hi: "fst (hsh s st) < 127"
    unfolding hsh_value by simp_all
  from lo have "fst (hsh s st) \<noteq> - 1" by simp
  with lo hi show ?thesis by (simp add: newNode_def)
qed

lemma hsh_idle: "hasher st = offset32 \<Longrightarrow> hsh s st = (uint (Write offset32 s) mod 127, st)"
  by (simp add: hsh_def Let_def ringCapacity_def uint_mod)

subsection \<open>Connections\<close>

lemma connectToPeer_accepted:
  "remote ev (dialed st) (TrimSpace a) = Accepts s \<Longrightarrow>
   connectToPeer ev a st =
     Inr (s, st\<lparr>dialed := Suc (dialed st), wire := wire st @ [Dial (TrimSpace a)]\<rparr>)"
  by (simp add: connectToPeer_def Let_def)

lemma connectToPeer_refused:
  "remote ev (dialed st) (TrimSpace a) = Refused \<Longrightarrow> connectToPeer ev a st = Inl Fatal"
  by (simp add: connectToPeer_def Let_def)

lemma sendSuccessorRequest_answer:
  assumes "remote ev (dialed st) (TrimSpace a) = Accepts reply" "nl \<in> set reply"
  shows "sendSuccessorRequest ev i a st =
     Inr (takeWhile (\<lambda>c. c \<noteq> nl) reply @ [nl],
          st\<lparr>dialed := Suc (dialed st),
              wire := wire st @
                [Dial (TrimSpace a), Send (TrimSpace a) (''SUCC '' @ showInt i @ [nl]),
                 Hangup (TrimSpace a)]\<rparr>)"
  using assms
  by (simp add: sendSuccessorRequest_def connectToPeer_accepted ReadString_def Let_def)

lemma sendSuccessorRequest_refused:
  assumes "remote ev (dialed st) (TrimSpace a) = Refused"
  shows "sendSuccessorRequest ev i a st = Inl Fatal"
  using assms by (simp add: sendSuccessorRequest_def connectToPeer_refused)

lemma sendSuccessorRequest_no_line:
  assumes "remote ev (dialed st) (TrimSpace a) = Accepts reply" "nl \<notin> set reply"
  shows "sendSuccessorRequest ev i a st = Inl Fatal"
  using assms
  by (simp add: sendSuccessorRequest_def connectToPeer_accepted ReadString_def Let_def)



subsection \<open>Evaluating the examples\<close>

lemma show_60: "showInt 60 = ''60''"
  by (simp add: showInt_def decimal.simps digitChar_def)

lemma show_100: "showInt 100 = ''100''"
  by (simp add: showInt_def decimal.simps digitChar_def)

lemma show_5: "showInt 5 = ''5''"
  by (simp add: showInt_def decimal.simps digitChar_def)


lemma trim_8003: "TrimSpace ''127.0.0.1:8003'' = ''127.0.0.1:8003''"
  by (simp add: TrimSpace_def isSpace_def)

lemma trim_8009: "TrimSpace ''127.0.0.1:8009'' = ''127.0.0.1:8009''"
  by (simp add: TrimSpace_def isSpace_def)

lemma hash_8009: "uint (Write offset32 ''127.0.0.1:8009'') mod 127 = 37"
  by (simp add: Write_def offset32_def prime32_def)

lemma hash_8067: "uint (Write offset32 ''127.0.0.1:8067'') mod 127 = 60"
  by (simp add: Write_def offset32_def prime32_def)


subsection \<open>Routing\<close>

text \<open>
  C2. \<open>findSuccessor\<close> at a peer returns the peer's own address when both neighbour
  slots are unset; otherwise its own address when the identifier lies between the
  predecessor and the peer or is the peer's; otherwise the successor's address when the
  identifier lies between the peer and the successor or is the successor's; otherwise it
  dials the successor, sends \<open>SUCC\<close> with the identifier, and returns the line the
  successor answers, as read (a refused dial or an answer without a line end is fatal).
  This holds for every identifier, in particular for those of the ring.
\<close>

theorem findSuccessor_cases:
  "(ID (predecessor st) = - 1 \<and> ID (successor st) = - 1 \<longrightarrow>
      findSuccessor ev i st = Inr (Address (self st), st)) \<and>
   (\<not> (ID (predecessor st) = - 1 \<and> ID (successor st) = - 1) \<and>
    (between (ID (predecessor st)) i (ID (self st)) \<or> i = ID (self st)) \<longrightarrow>
      findSuccessor ev i st = Inr (Address (self st), st)) \<and>
   (\<not> (ID (predecessor st) = - 1 \<and> ID (successor st) = - 1) \<and>
    \<not> (between (ID (predecessor st)) i (ID (self st)) \<or> i = ID (self st)) \<and>
    (between (ID (self st)) i (ID (successor st)) \<or> i = ID (successor st)) \<longrightarrow>
      findSuccessor ev i st = Inr (Address (successor st), st)) \<and>
   (\<not> (ID (predecessor st) = - 1 \<and> ID (successor st) = - 1) \<and>
    \<not> (between (ID (predecessor st)) i (ID (self st)) \<or> i = ID (self st)) \<and>
    \<not> (between (ID (self st)) i (ID (successor st)) \<or> i = ID (successor st)) \<longrightarrow>
      findSuccessor ev i st =
        (case remote ev (dialed st) (TrimSpace (Address (successor st))) of
           Refused \<Rightarrow> Inl Fatal
         | Accepts reply \<Rightarrow>
             if nl \<in> set reply then
               Inr (takeWhile (\<lambda>c. c \<noteq> nl) reply @ [nl],
                    st\<lparr>dialed := Suc (dialed st),
                        wire := wire st @
                          [Dial (TrimSpace (Address (successor st))),
                           Send (TrimSpace (Address (successor st)))
                             (''SUCC '' @ showInt i @ [nl]),
                           Hangup (TrimSpace (Address (successor st)))]\<rparr>)
             else Inl Fatal))"
proof (intro conjI impI)
  assume "ID (predecessor st) = - 1 \<and> ID (successor st) = - 1"
  then show "findSuccessor ev i st = Inr (Address (self st), st)"
    by (simp add: findSuccessor_def)
next
  assume "\<not> (ID (predecessor st) = - 1 \<and> ID (successor st) = - 1) \<and>
    (between (ID (predecessor st)) i (ID (self st)) \<or> i = ID (self st))"
  then show "findSuccessor ev i st = Inr (Address (self st), st)"
    by (auto simp add: findSuccessor_def)
next
  assume "\<not> (ID (predecessor st) = - 1 \<and> ID (successor st) = - 1) \<and>
    \<not> (between (ID (predecessor st)) i (ID (self st)) \<or> i = ID (self st)) \<and>
    (between (ID (self st)) i (ID (successor st)) \<or> i = ID (successor st))"
  then show "findSuccessor ev i st = Inr (Address (successor st), st)"
    by (auto simp add: findSuccessor_def)
next
  assume "\<not> (ID (predecessor st) = - 1 \<and> ID (successor st) = - 1) \<and>
    \<not> (between (ID (predecessor st)) i (ID (self st)) \<or> i = ID (self st)) \<and>
    \<not> (between (ID (self st)) i (ID (successor st)) \<or> i = ID (successor st))"
  then have f: "findSuccessor ev i st = sendSuccessorRequest ev i (Address (successor st)) st"
    by (auto simp add: findSuccessor_def)
  show "findSuccessor ev i st =
        (case remote ev (dialed st) (TrimSpace (Address (successor st))) of
           Refused \<Rightarrow> Inl Fatal
         | Accepts reply \<Rightarrow>
             if nl \<in> set reply then
               Inr (takeWhile (\<lambda>c. c \<noteq> nl) reply @ [nl],
                    st\<lparr>dialed := Suc (dialed st),
                        wire := wire st @
                          [Dial (TrimSpace (Address (successor st))),
                           Send (TrimSpace (Address (successor st)))
                             (''SUCC '' @ showInt i @ [nl]),
                           Hangup (TrimSpace (Address (successor st)))]\<rparr>)
             else Inl Fatal)"
    unfolding f
    by (cases "remote ev (dialed st) (TrimSpace (Address (successor st)))")
       (simp_all add: sendSuccessorRequest_refused sendSuccessorRequest_answer
          sendSuccessorRequest_no_line)
qed

text \<open>
  The four cases on the example peers: alone; identifiers 50 and 60 (the peer's own arc);
  70 (the successor's arc); 100 (forwarded to the successor, which answers
  \<open>127.0.0.1:8001\<close>).
\<close>

theorem findSuccessor_cases_witness:
  "findSuccessor relaying 100 alone = Inr (''127.0.0.1:8006'', alone) \<and>
   findSuccessor relaying 50 inRing = Inr (''127.0.0.1:8006'', inRing) \<and>
   findSuccessor relaying 60 inRing = Inr (''127.0.0.1:8006'', inRing) \<and>
   findSuccessor relaying 70 inRing = Inr (''127.0.0.1:8003'', inRing) \<and>
   findSuccessor relaying 100 inRing =
     Inr (''127.0.0.1:8001'' @ [nl],
          inRing\<lparr>dialed := 1,
                 wire := [Dial ''127.0.0.1:8003'',
                          Send ''127.0.0.1:8003'' (''SUCC 100'' @ [nl]),
                          Hangup ''127.0.0.1:8003'']\<rparr>)"
  using findSuccessor_cases [of alone relaying 100]
    findSuccessor_cases [of inRing relaying 50]
    findSuccessor_cases [of inRing relaying 60]
    findSuccessor_cases [of inRing relaying 70]
    findSuccessor_cases [of inRing relaying 100]
  by (simp add: alone_def inRing_def relaying_def newNode_def between_def ringCapacity_def
      wrap64_def Let_def trim_8003 show_100 nl_def)

text \<open>
  C10. When \<open>findSuccessor\<close> forwards (none of the three local cases applies) and the
  successor answers with a line, the string returned is that line with its line feed, not
  trimmed: it ends in a line feed, so it differs from every address without one, and the
  \<open>SUCC\<close> handler, which appends a line feed to whatever \<open>findSuccessor\<close> returns,
  replies with two line feeds at the end.
\<close>

theorem findSuccessor_forwarded_untrimmed:
  assumes tok: "Split request = verb # idTok # rest"
    and num: "Atoi idTok = (i, False)"
    and ring: "\<not> (ID (predecessor st) = - 1 \<and> ID (successor st) = - 1)"
    and mine: "\<not> (between (ID (predecessor st)) i (ID (self st)) \<or> i = ID (self st))"
    and onward: "\<not> (between (ID (self st)) i (ID (successor st)) \<or> i = ID (successor st))"
    and acc: "remote ev (dialed st) (TrimSpace (Address (successor st))) = Accepts reply"
    and line: "nl \<in> set reply"
  shows "let answer = takeWhile (\<lambda>c. c \<noteq> nl) reply @ [nl];
             dst = TrimSpace (Address (successor st));
             st1 = st\<lparr>dialed := Suc (dialed st),
                      wire := wire st @
                        [Dial dst, Send dst (''SUCC '' @ showInt i @ [nl]), Hangup dst]\<rparr>
         in findSuccessor ev i st = Inr (answer, st1) \<and>
            last answer = nl \<and>
            (\<forall>addr. nl \<notin> set addr \<longrightarrow> answer \<noteq> addr) \<and>
            handleSuccessorRequest ev request st =
              Inr (st1\<lparr>wire := wire st1 @ [Reply (answer @ [nl])]\<rparr>)"
proof -
  let ?answer = "takeWhile (\<lambda>c. c \<noteq> nl) reply @ [nl]"
  let ?dst = "TrimSpace (Address (successor st))"
  let ?st1 = "st\<lparr>dialed := Suc (dialed st),
                  wire := wire st @
                    [Dial ?dst, Send ?dst (''SUCC '' @ showInt i @ [nl]), Hangup ?dst]\<rparr>"
  have f: "findSuccessor ev i st = Inr (?answer, ?st1)"
    using ring mine onward sendSuccessorRequest_answer [OF acc line]
    by (auto simp add: findSuccessor_def)
  have h: "handleSuccessorRequest ev request st =
       Inr (?st1\<lparr>wire := wire ?st1 @ [Reply (?answer @ [nl])]\<rparr>)"
    by (simp add: handleSuccessorRequest_def tok num f Let_def)
  have d: "\<forall>addr. nl \<notin> set addr \<longrightarrow> ?answer \<noteq> addr"
    by auto
  from f h d show ?thesis by (simp add: Let_def)
qed

text \<open>
  On the example ring, \<open>SUCC 100\<close> is forwarded; the answer \<open>127.0.0.1:8001\<close> comes
  back with its line feed, differs from the bare address, and is relayed with a second one.
\<close>

theorem findSuccessor_forwarded_untrimmed_witness:
  "findSuccessor relaying 100 inRing =
     Inr (''127.0.0.1:8001'' @ [nl],
          inRing\<lparr>dialed := 1,
                 wire := [Dial ''127.0.0.1:8003'',
                          Send ''127.0.0.1:8003'' (''SUCC 100'' @ [nl]),
                          Hangup ''127.0.0.1:8003'']\<rparr>) \<and>
   ''127.0.0.1:8001'' @ [nl] \<noteq> ''127.0.0.1:8001'' \<and>
   handleSuccessorRequest relaying ''SUCC 100'' inRing =
     Inr (inRing\<lparr>dialed := 1,
                wire := [Dial ''127.0.0.1:8003'',
                         Send ''127.0.0.1:8003'' (''SUCC 100'' @ [nl]),
                         Hangup ''127.0.0.1:8003'',
                         Reply (''127.0.0.1:8001'' @ [nl, nl])]\<rparr>)"
proof -
  have tok: "Split ''SUCC 100'' = ''SUCC'' # ''100'' # []" by simp
  have num: "Atoi ''100'' = (100, False)"
    by (simp add: Atoi_def isDigit_def digitsValue_def Let_def)
  have ring: "\<not> (ID (predecessor inRing) = - 1 \<and> ID (successor inRing) = - 1)"
    by (simp add: inRing_def)
  have mine: "\<not> (between (ID (predecessor inRing)) 100 (ID (self inRing)) \<or>
                  100 = ID (self inRing))"
    by (simp add: inRing_def between_def ringCapacity_def wrap64_def Let_def)
  have onward: "\<not> (between (ID (self inRing)) 100 (ID (successor inRing)) \<or>
                    100 = ID (successor inRing))"
    by (simp add: inRing_def between_def ringCapacity_def wrap64_def Let_def)
  have acc: "remote relaying (dialed inRing) (TrimSpace (Address (successor inRing))) =
               Accepts (''127.0.0.1:8001'' @ [nl])"
    by (simp add: relaying_def)
  have line: "nl \<in> set (''127.0.0.1:8001'' @ [nl])" by simp
  have dst: "TrimSpace (Address (successor inRing)) = ''127.0.0.1:8003''"
    by (simp add: inRing_def trim_8003)
  have first: "takeWhile (\<lambda>c. c \<noteq> nl) (''127.0.0.1:8001'' @ [nl]) = ''127.0.0.1:8001''"
    by (simp add: nl_def)
  from findSuccessor_forwarded_untrimmed [OF tok num ring mine onward acc line]
  show ?thesis
    unfolding Let_def dst show_100 first by (simp add: inRing_def nl_def)
qed

subsection \<open>Storing\<close>

text \<open>
  C6 (as amended). When the connection ends before the declared number of bytes has
  arrived, the \<open>STORE\<close> handler, which has already replied \<open>OK\<close>, replies
  \<open>ERR Could not copy file.\<close> and leaves \<open>storedFiles\<close> as it was, so no entry is
  added. It discards nothing: the bytes that did arrive are now the contents of the local
  file, and nothing else of the state changes.
\<close>

theorem handleStoreRequest_copy_error:
  assumes tok: "Split request = verb # fileName # sizeTok # rest"
    and creates: "\<not> createFails ev (filePath st fileName)"
    and short: "int (length reader) < fst (Atoi sizeTok)"
  shows "handleStoreRequest ev reader request st =
           Inr (st\<lparr>disk := (disk st)(filePath st fileName \<mapsto> reader),
                   wire := wire st @
                     [Reply (''OK'' @ [nl]), Reply (''ERR Could not copy file.'' @ [nl])]\<rparr>)"
  using creates short by (simp add: handleStoreRequest_def tok Let_def CopyN_def)

text \<open>
  A new file \<open>notes\<close> announced with 5 bytes, of which 2 arrive: the reply is the error,
  \<open>storedFiles\<close> has no entry for it, and the 2 bytes are on disk.
\<close>

theorem handleStoreRequest_copy_error_witness:
  "handleStoreRequest obliging ''ab'' ''STORE notes 5'' alone =
     Inr (alone\<lparr>disk := (disk alone)((''60'', ''notes'') \<mapsto> ''ab''),
               wire := [Reply (''OK'' @ [nl]), Reply (''ERR Could not copy file.'' @ [nl])]\<rparr>) \<and>
   storedFiles alone ''notes'' = None"
proof -
  have tok: "Split ''STORE notes 5'' = ''STORE'' # ''notes'' # ''5'' # []" by simp
  have five: "Atoi ''5'' = (5, False)"
    by (simp add: Atoi_def isDigit_def digitsValue_def Let_def)
  have creates: "\<not> createFails obliging (filePath alone ''notes'')"
    by (simp add: obliging_def)
  have short: "int (length ''ab'') < fst (Atoi ''5'')"
    by (simp add: five)
  have path: "filePath alone ''notes'' = (''60'', ''notes'')"
    by (simp add: filePath_def alone_def show_60)
  from handleStoreRequest_copy_error [OF tok creates short]
  show ?thesis
    unfolding path by (simp add: alone_def)
qed

text \<open>
  C6 as stated fails: after a failed \<open>STORE\<close> of \<open>hi\<close>, a file the peer already
  holds, the half-written blob \<open>ab\<close> is what the disk has for \<open>hi\<close>, and \<open>hi\<close> is
  still registered in \<open>storedFiles\<close>.
\<close>

theorem handleStoreRequest_copy_error_counterexample:
  "(case handleStoreRequest obliging ''ab'' ''STORE hi 5'' alone of
      Inl e \<Rightarrow> False
    | Inr st' \<Rightarrow>
        wire st' = [Reply (''OK'' @ [nl]), Reply (''ERR Could not copy file.'' @ [nl])] \<and>
        disk st' (filePath alone ''hi'') = Some ''ab'' \<and>
        storedFiles st' ''hi'' = Some 59)"
  by (simp add: handleStoreRequest_def alone_def obliging_def Let_def CopyN_def Atoi_def
      isDigit_def digitsValue_def filePath_def)

subsection \<open>Membership: UPDATE\<close>

text \<open>
  C4 (as amended). The \<open>UPDATE\<close> handler sends no reply and changes nothing but the two
  neighbour slots. It handles the successor token and then the predecessor token, each
  alone: \<open>KEEP\<close> changes nothing, a token equal to the peer's own address clears both
  slots, any other token sets its own slot to the address and its hash. So the end state
  has both slots unset whenever the predecessor token is the peer's address; when the
  successor token is the peer's address, both slots end unset only if the predecessor
  token is \<open>KEEP\<close> or the peer's address, and with any other predecessor token the
  successor ends unset and the predecessor ends as that address with its hash.
  (The hasher is idle, as it is between any two calls of \<open>hsh\<close>.)
\<close>

theorem handleUpdateRequest_end_state:
  assumes tok: "Split request = verb # a # b # rest"
    and idle: "hasher st = offset32"
  shows "handleUpdateRequest request st =
     Inr (st\<lparr>successor :=
               (if b \<noteq> ''KEEP'' \<and> b = Address (self st) then newNode
                else if a = ''KEEP'' then successor st
                else if a = Address (self st) then newNode
                else \<lparr>Address = a, ID = fst (hsh a st)\<rparr>),
             predecessor :=
               (if b = ''KEEP'' then
                  (if a \<noteq> ''KEEP'' \<and> a = Address (self st) then newNode
                   else predecessor st)
                else if b = Address (self st) then newNode
                else \<lparr>Address = b, ID = fst (hsh b st)\<rparr>)\<rparr>)"
  using idle
  by (simp add: handleUpdateRequest_def tok Let_def hsh_idle split: prod.splits)

text \<open>
  On the example ring: the peer's own address in either slot, with \<open>KEEP\<close> in the
  other, clears both slots; \<open>KEEP KEEP\<close> changes nothing; a new successor address
  replaces the successor only.
\<close>

theorem handleUpdateRequest_end_state_witness:
  "handleUpdateRequest ''UPDATE KEEP 127.0.0.1:8006'' inRing =
     Inr (inRing\<lparr>successor := newNode, predecessor := newNode\<rparr>) \<and>
   handleUpdateRequest ''UPDATE 127.0.0.1:8006 KEEP'' inRing =
     Inr (inRing\<lparr>successor := newNode, predecessor := newNode\<rparr>) \<and>
   handleUpdateRequest ''UPDATE KEEP KEEP'' inRing = Inr inRing \<and>
   handleUpdateRequest ''UPDATE 127.0.0.1:8009 KEEP'' inRing =
     Inr (inRing\<lparr>successor := \<lparr>Address = ''127.0.0.1:8009'', ID = 37\<rparr>\<rparr>)"
proof -
  have idle: "hasher inRing = offset32" by (simp add: inRing_def)
  have k1: "Split ''UPDATE KEEP 127.0.0.1:8006'' =
              ''UPDATE'' # ''KEEP'' # ''127.0.0.1:8006'' # []" by simp
  have k2: "Split ''UPDATE 127.0.0.1:8006 KEEP'' =
              ''UPDATE'' # ''127.0.0.1:8006'' # ''KEEP'' # []" by simp
  have k3: "Split ''UPDATE KEEP KEEP'' = ''UPDATE'' # ''KEEP'' # ''KEEP'' # []" by simp
  have k4: "Split ''UPDATE 127.0.0.1:8009 KEEP'' =
              ''UPDATE'' # ''127.0.0.1:8009'' # ''KEEP'' # []" by simp
  have h: "fst (hsh ''127.0.0.1:8009'' inRing) = 37"
    by (simp add: hsh_idle [OF idle] hash_8009)
  show ?thesis
    using handleUpdateRequest_end_state [OF k1 idle] handleUpdateRequest_end_state [OF k2 idle]
      handleUpdateRequest_end_state [OF k3 idle] handleUpdateRequest_end_state [OF k4 idle] h
    by (simp add: inRing_def)
qed

text \<open>
  C4 as stated fails: with the peer's own address as the successor token and another
  address as the predecessor token the slots are not both cleared (the predecessor ends
  set), while the same two tokens the other way round clear both; the end state depends on
  which slot carries the peer's address.
\<close>

theorem handleUpdateRequest_end_state_counterexample:
  "(case handleUpdateRequest ''UPDATE 127.0.0.1:8006 127.0.0.1:8009'' inRing of
      Inl e \<Rightarrow> False
    | Inr st' \<Rightarrow>
        successor st' = newNode \<and>
        predecessor st' = \<lparr>Address = ''127.0.0.1:8009'', ID = 37\<rparr> \<and>
        predecessor st' \<noteq> newNode) \<and>
   (case handleUpdateRequest ''UPDATE 127.0.0.1:8009 127.0.0.1:8006'' inRing of
      Inl e \<Rightarrow> False
    | Inr st' \<Rightarrow> successor st' = newNode \<and> predecessor st' = newNode)"
  by (simp add: handleUpdateRequest_def inRing_def Let_def hsh_def newNode_def
      ringCapacity_def uint_mod hash_8009 split: prod.splits)

subsection \<open>Membership: the handoff\<close>



text \<open>
  \<open>storeFile\<close> in every environment: a refused dial and a missing local file end the
  process; otherwise what it writes is the exchange.
\<close>

lemma storeFile_run:
  "storeFile ev f a st =
     (case remote ev (dialed st) (TrimSpace a) of
        Refused \<Rightarrow> Inl Fatal
      | Accepts s \<Rightarrow>
          (case disk st (filePath st f) of
             None \<Rightarrow> Inl Fatal
           | Some c \<Rightarrow>
               Inr (st\<lparr>dialed := Suc (dialed st),
                       wire := wire st @ exchange ev st a (dialed st) f\<rparr>)))"
  by (simp add: storeFile_def connectToPeer_def exchange_def filePath_def Let_def
      split: response.splits option.splits)

lemma exchanges_cong:
  "(\<And>g. g \<in> set names \<Longrightarrow> disk s1 (filePath s1 g) = disk s2 (filePath s2 g)) \<Longrightarrow>
   exchanges ev s1 a k names = exchanges ev s2 a k names"
proof (induction names arbitrary: k)
  case Nil
  show ?case by simp
next
  case (Cons f names)
  have "disk s1 (filePath s1 f) = disk s2 (filePath s2 f)"
    using Cons.prems by simp
  then have "exchange ev s1 a k f = exchange ev s2 a k f"
    by (simp add: exchange_def split: response.splits)
  moreover have "exchanges ev s1 a (Suc k) names = exchanges ev s2 a (Suc k) names"
    using Cons.prems by (intro Cons.IH) simp
  ultimately show ?case by simp
qed

text \<open>
  The second loop of \<open>moveFilesToNewNode\<close> in every environment: it returns exactly
  when every dial is accepted and every listed file is on disk, and then each name has
  had its exchange and is gone from the disk and from \<open>storedFiles\<close>, whatever the
  answers were; otherwise the process ends at the first refused dial or missing file.
\<close>

lemma transferAll_run:
  "distinct names \<Longrightarrow>
   transferAll ev a names st =
     (if \<forall>i<length names.
           remote ev (dialed st + i) (TrimSpace a) \<noteq> Refused \<and>
           disk st (filePath st (names ! i)) \<noteq> None
      then Inr (st\<lparr>dialed := dialed st + length names,
                   wire := wire st @ exchanges ev st a (dialed st) names,
                   disk := (\<lambda>p. if p \<in> filePath st ` set names then None else disk st p),
                   storedFiles := (\<lambda>f. if f \<in> set names then None else storedFiles st f)\<rparr>)
      else Inl Fatal)"
proof (induction names arbitrary: st)
  case Nil
  then show ?case by simp
next
  case (Cons f names)
  let ?ok = "\<lambda>st ns. \<forall>i<length ns.
           remote ev (dialed st + i) (TrimSpace a) \<noteq> Refused \<and>
           disk st (filePath st (ns ! i)) \<noteq> None"
  have d: "distinct names" and fresh: "f \<notin> set names"
    using Cons.prems by simp_all
  show ?case
  proof (cases "remote ev (dialed st) (TrimSpace a)")
    case Refused
    then have "\<not> ?ok st (f # names)" by auto
    moreover have "transferAll ev a (f # names) st = Inl Fatal"
      by (simp add: storeFile_run Refused)
    ultimately show ?thesis by simp
  next
    case (Accepts s)
    show ?thesis
    proof (cases "disk st (filePath st f)")
      case None
      then have "\<not> ?ok st (f # names)" by auto
      moreover have "transferAll ev a (f # names) st = Inl Fatal"
        by (simp add: storeFile_run Accepts None)
      ultimately show ?thesis by simp
    next
      case (Some c)
      let ?st1 = "st\<lparr>dialed := Suc (dialed st),
                      wire := wire st @ exchange ev st a (dialed st) f\<rparr>"
      let ?st2 = "?st1\<lparr>disk := (disk ?st1)(filePath ?st1 f := None),
                       storedFiles := (storedFiles ?st1)(f := None)\<rparr>"
      have step: "transferAll ev a (f # names) st = transferAll ev a names ?st2"
        by (simp add: storeFile_run Accepts Some)
      have keep: "\<And>g. g \<in> set names \<Longrightarrow> disk ?st2 (filePath ?st2 g) = disk st (filePath st g)"
        using fresh by (auto simp add: filePath_def)
      have ex: "exchanges ev ?st2 a (Suc (dialed st)) names = exchanges ev st a (Suc (dialed st)) names"
        by (rule exchanges_cong) (rule keep)
      have dl: "dialed ?st2 = Suc (dialed st)" by simp
      have oks: "?ok ?st2 names \<longleftrightarrow> ?ok st (f # names)"
      proof -
        have pt: "(remote ev (dialed ?st2 + i) (TrimSpace a) \<noteq> Refused \<and>
                   disk ?st2 (filePath ?st2 (names ! i)) \<noteq> None) =
                  (remote ev (dialed st + Suc i) (TrimSpace a) \<noteq> Refused \<and>
                   disk st (filePath st (names ! i)) \<noteq> None)"
          if "i < length names" for i
        proof -
          have "disk ?st2 (filePath ?st2 (names ! i)) = disk st (filePath st (names ! i))"
            using that by (intro keep) simp
          then show ?thesis unfolding dl by simp
        qed
        have "?ok ?st2 names \<longleftrightarrow>
              (\<forall>i<length names.
                 remote ev (dialed st + Suc i) (TrimSpace a) \<noteq> Refused \<and>
                 disk st (filePath st (names ! i)) \<noteq> None)"
          using pt by blast
        also have "\<dots> \<longleftrightarrow> ?ok st (f # names)"
          using Accepts Some by (simp add: All_less_Suc2)
        finally show ?thesis .
      qed
      have dk: "(\<lambda>p. if p \<in> filePath ?st2 ` set names then None else disk ?st2 p) =
                (\<lambda>p. if p \<in> filePath st ` set (f # names) then None else disk st p)"
        by (rule ext) (auto simp add: filePath_def)
      have sk: "(\<lambda>g. if g \<in> set names then None else storedFiles ?st2 g) =
                (\<lambda>g. if g \<in> set (f # names) then None else storedFiles st g)"
        by (rule ext) auto
      have "transferAll ev a names ?st2 =
          (if ?ok ?st2 names
           then Inr (?st2\<lparr>dialed := dialed ?st2 + length names,
                   wire := wire ?st2 @ exchanges ev ?st2 a (dialed ?st2) names,
                   disk := (\<lambda>p. if p \<in> filePath ?st2 ` set names then None else disk ?st2 p),
                   storedFiles := (\<lambda>f. if f \<in> set names then None else storedFiles ?st2 f)\<rparr>)
           else Inl Fatal)"
        using d by (rule Cons.IH)
      also have "\<dots> =
          (if ?ok st (f # names)
           then Inr (st\<lparr>dialed := dialed st + length (f # names),
                   wire := wire st @ exchanges ev st a (dialed st) (f # names),
                   disk := (\<lambda>p. if p \<in> filePath st ` set (f # names) then None else disk st p),
                   storedFiles := (\<lambda>g. if g \<in> set (f # names) then None else storedFiles st g)\<rparr>)
           else Inl Fatal)"
        unfolding oks dk sk unfolding dl ex by simp
      finally show ?thesis unfolding step .
    qed
  qed
qed


text \<open>
  C1 (as amended). Let the names in \<open>storedFiles\<close> be plain file names and let the
  runtime enumerate each key of the map once. \<open>moveFilesToNewNode\<close> selects exactly the
  files \<open>(name, k)\<close> of \<open>storedFiles\<close> with NOT \<open>between(newId, k, selfId)\<close> and
  takes them in turn: it dials the newcomer and sends the \<open>STORE\<close> line, sends the
  bytes of the file only if the newcomer answers \<open>OK\<close>, and then removes the local blob
  and the entry of \<open>storedFiles\<close> whether or not the bytes were sent. It returns when
  every dial is accepted and every selected file is on disk; every file with
  \<open>between(newId, k, selfId)\<close> then has its entry unchanged. If a dial is refused or a
  selected file is missing on disk, the process ends instead.
\<close>

theorem moveFilesToNewNode_handoff:
  assumes order: "distinct (rangeOrder ev (storedFiles st))"
                 "set (rangeOrder ev (storedFiles st)) = dom (storedFiles st)"
    and plain: "\<forall>f \<in> dom (storedFiles st). plainName f"
  shows "let toTransfer =
               filter
                 (\<lambda>f. case storedFiles st f of
                         None \<Rightarrow> False
                       | Some k \<Rightarrow> \<not> between newId k (ID (self st)))
                 (rangeOrder ev (storedFiles st))
         in distinct toTransfer \<and>
            set toTransfer =
              {f. \<exists>k. storedFiles st f = Some k \<and> \<not> between newId k (ID (self st))} \<and>
            moveFilesToNewNode ev newAddr newId st =
              (if \<forall>i<length toTransfer.
                    remote ev (dialed st + i) (TrimSpace newAddr) \<noteq> Refused \<and>
                    disk st (filePath st (toTransfer ! i)) \<noteq> None
               then
                 Inr (st\<lparr>dialed := dialed st + length toTransfer,
                         wire := wire st @ exchanges ev st newAddr (dialed st) toTransfer,
                         disk := (\<lambda>p. if p \<in> filePath st ` set toTransfer then None
                                       else disk st p),
                         storedFiles :=
                           (\<lambda>f. case storedFiles st f of
                                   None \<Rightarrow> None
                                 | Some k \<Rightarrow>
                                     if between newId k (ID (self st)) then Some k else None)\<rparr>)
               else Inl Fatal)"
proof -
  let ?tt = "filter
               (\<lambda>f. case storedFiles st f of
                       None \<Rightarrow> False
                     | Some k \<Rightarrow> \<not> between newId k (ID (self st)))
               (rangeOrder ev (storedFiles st))"
  have d: "distinct ?tt" using order(1) by simp
  have members: "set ?tt =
      {f. \<exists>k. storedFiles st f = Some k \<and> \<not> between newId k (ID (self st))}"
    using order(2) by (auto split: option.splits)
  have left: "(\<lambda>f. if f \<in> set ?tt then None else storedFiles st f) =
        (\<lambda>f. case storedFiles st f of
                None \<Rightarrow> None
              | Some k \<Rightarrow> if between newId k (ID (self st)) then Some k else None)"
    unfolding members by (rule ext) (auto split: option.splits)
  have "moveFilesToNewNode ev newAddr newId st = transferAll ev newAddr ?tt st"
    by (simp only: moveFilesToNewNode_def Let_def)
  also note transferAll_run [OF d]
  finally have run: "moveFilesToNewNode ev newAddr newId st =
     (if \<forall>i<length ?tt.
           remote ev (dialed st + i) (TrimSpace newAddr) \<noteq> Refused \<and>
           disk st (filePath st (?tt ! i)) \<noteq> None
      then Inr (st\<lparr>dialed := dialed st + length ?tt,
                   wire := wire st @ exchanges ev st newAddr (dialed st) ?tt,
                   disk := (\<lambda>p. if p \<in> filePath st ` set ?tt then None else disk st p),
                   storedFiles :=
                     (\<lambda>f. case storedFiles st f of
                             None \<Rightarrow> None
                           | Some k \<Rightarrow>
                               if between newId k (ID (self st)) then Some k else None)\<rparr>)
      else Inl Fatal)"
    unfolding left .
  show ?thesis
    unfolding Let_def using d members run by (intro conjI)
qed

text \<open>
  The example peer (identifier 60) hands off to a newcomer with identifier 37 that answers
  \<open>OK\<close>: \<open>g\<close> (key 33) is sent with its bytes and removed, \<open>hi\<close> (key 59) stays.
\<close>

theorem moveFilesToNewNode_handoff_witness:
  "\<exists>st'. moveFilesToNewNode obliging ''127.0.0.1:8009'' 37 inRing = Inr st' \<and>
     wire st' =
       [Dial ''127.0.0.1:8009'',
        Send ''127.0.0.1:8009'' (''STORE g 5'' @ [nl]),
        Send ''127.0.0.1:8009'' ''gamma'',
        Hangup ''127.0.0.1:8009''] \<and>
     storedFiles st' ''g'' = None \<and> storedFiles st' ''hi'' = Some 59 \<and>
     disk st' (''60'', ''g'') = None \<and> disk st' (''60'', ''hi'') = Some ''hello''"
proof -
  have o1: "distinct (rangeOrder obliging (storedFiles inRing))"
    by (simp add: obliging_def)
  have o2: "set (rangeOrder obliging (storedFiles inRing)) = dom (storedFiles inRing)"
    by (auto simp add: obliging_def inRing_def)
  have plain: "\<forall>f \<in> dom (storedFiles inRing). plainName f"
    by (simp add: inRing_def plainName_def)
  have out: "\<not> between 37 33 60" and stay: "between 37 59 60"
    by (simp_all add: between_def ringCapacity_def wrap64_def Let_def)
  have tt: "filter
              (\<lambda>f. case storedFiles inRing f of
                      None \<Rightarrow> False
                    | Some k \<Rightarrow> \<not> between 37 k (ID (self inRing)))
              (rangeOrder obliging (storedFiles inRing)) = [''g'']"
    using out stay by (simp add: obliging_def inRing_def)
  have fp: "filePath inRing ''g'' = (''60'', ''g'')"
    by (simp add: inRing_def filePath_def show_60)
  have ex: "exchange obliging inRing ''127.0.0.1:8009'' (dialed inRing) ''g'' =
      [Dial ''127.0.0.1:8009'',
       Send ''127.0.0.1:8009'' (''STORE g 5'' @ [nl]),
       Send ''127.0.0.1:8009'' ''gamma'',
       Hangup ''127.0.0.1:8009'']"
    unfolding exchange_def fp trim_8009
    by (simp add: inRing_def obliging_def show_5 extractServerResponse_def ReadString_def
        TrimSpace_def isSpace_def nl_def)
  have all: "\<forall>i<length [''g''].
      remote obliging (dialed inRing + i) (TrimSpace ''127.0.0.1:8009'') \<noteq> Refused \<and>
      disk inRing (filePath inRing ([''g''] ! i)) \<noteq> None"
    by (simp add: obliging_def fp) (simp add: inRing_def)
  note inst = moveFilesToNewNode_handoff [OF o1 o2 plain, where newAddr = "''127.0.0.1:8009''" and newId = 37,
      unfolded Let_def tt, THEN conjunct2, THEN conjunct2]
  have "moveFilesToNewNode obliging ''127.0.0.1:8009'' 37 inRing =
      Inr (inRing\<lparr>dialed := dialed inRing + length [''g''],
                wire := wire inRing @
                  exchanges obliging inRing ''127.0.0.1:8009'' (dialed inRing) [''g''],
                disk := (\<lambda>p. if p \<in> filePath inRing ` set [''g''] then None
                              else disk inRing p),
                storedFiles :=
                  (\<lambda>f. case storedFiles inRing f of
                          None \<Rightarrow> None
                        | Some k \<Rightarrow>
                            if between 37 k (ID (self inRing)) then Some k else None)\<rparr>)"
    by (rule trans [OF inst if_P [OF all]])
  then show ?thesis
    using out stay by (simp add: ex fp) (simp add: inRing_def)
qed

text \<open>
  C1 as stated fails: when the newcomer answers the \<open>STORE\<close> line with an error, the
  file \<open>g\<close>, one of those with NOT \<open>between(newId, k, selfId)\<close>, is not transferred
  (no byte of it is sent), and its blob and its entry are removed all the same.
\<close>

theorem moveFilesToNewNode_handoff_counterexample:
  "(case moveFilesToNewNode declining ''127.0.0.1:8009'' 37 inRing of
      Inl e \<Rightarrow> False
    | Inr st' \<Rightarrow>
        wire st' =
          [Dial ''127.0.0.1:8009'',
           Send ''127.0.0.1:8009'' (''STORE g 5'' @ [nl]),
           Hangup ''127.0.0.1:8009''] \<and>
        storedFiles st' ''g'' = None \<and>
        disk st' (''60'', ''g'') = None)"
proof -
  have out: "\<not> between 37 33 60" and stay: "between 37 59 60"
    by (simp_all add: between_def ringCapacity_def wrap64_def Let_def)
  have tt: "filter
              (\<lambda>f. case storedFiles inRing f of
                      None \<Rightarrow> False
                    | Some k \<Rightarrow> \<not> between 37 k (ID (self inRing)))
              (rangeOrder declining (storedFiles inRing)) = [''g'']"
    using out stay by (simp add: declining_def inRing_def)
  have fp: "filePath inRing ''g'' = (''60'', ''g'')"
    by (simp add: inRing_def filePath_def show_60)
  have sf: "storeFile declining ''g'' ''127.0.0.1:8009'' inRing =
      Inr (inRing\<lparr>dialed := 1,
                wire := [Dial ''127.0.0.1:8009'',
                         Send ''127.0.0.1:8009'' (''STORE g 5'' @ [nl]),
                         Hangup ''127.0.0.1:8009'']\<rparr>)"
    unfolding storeFile_def connectToPeer_def fp trim_8009
    by (simp add: inRing_def declining_def show_5 extractServerResponse_def ReadString_def
        TrimSpace_def isSpace_def nl_def filePath_def show_60 Let_def)
  have "moveFilesToNewNode declining ''127.0.0.1:8009'' 37 inRing =
        transferAll declining ''127.0.0.1:8009'' [''g''] inRing"
    by (simp only: moveFilesToNewNode_def Let_def tt)
  then show ?thesis
    by (simp add: sf) (simp add: inRing_def filePath_def show_60)
qed

subsection \<open>Membership: JOIN\<close>



text \<open>
  C7. When the address in a \<open>JOIN\<close> request hashes to the receiver's own identifier, the
  handler closes the connection and writes nothing else: no reply, and the neighbour slots,
  \<open>storedFiles\<close> and the disk are as before (only the hasher has been reset).
\<close>

theorem handleJoinRequest_self_collision:
  assumes tok: "Split request = verb # newAddr # rest"
    and same: "fst (hsh newAddr st) = ID (self st)"
  shows "handleJoinRequest ev request st =
           Inr (st\<lparr>hasher := offset32, wire := wire st @ [CloseConn]\<rparr>)"
  using same by (simp add: handleJoinRequest_def tok Let_def hsh_def split: prod.splits)

text \<open>
  \<open>127.0.0.1:8067\<close> hashes to 60, the identifier of the example peer
  \<open>127.0.0.1:8006\<close>: its \<open>JOIN\<close> is dropped.
\<close>

theorem handleJoinRequest_self_collision_witness:
  "fst (hsh ''127.0.0.1:8067'' inRing) = ID (self inRing) \<and>
   handleJoinRequest obliging ''JOIN 127.0.0.1:8067'' inRing = Inr (inRing\<lparr>wire := [CloseConn]\<rparr>)"
proof -
  have idle: "hasher inRing = offset32" by (simp add: inRing_def)
  have tok: "Split ''JOIN 127.0.0.1:8067'' = ''JOIN'' # ''127.0.0.1:8067'' # []" by simp
  have same: "fst (hsh ''127.0.0.1:8067'' inRing) = ID (self inRing)"
    by (simp add: hsh_idle [OF idle] hash_8067) (simp add: inRing_def)
  from handleJoinRequest_self_collision [OF tok same] same
  show ?thesis by (simp add: inRing_def)
qed

end
